theory Spec2Isabelle
  imports Main
begin

section \<open>The qualified alphabet of seqan3 (alphabet/quality/qualified.hpp)\<close>

text \<open>
  \<^verbatim>\<open>qualified<sequence_alphabet_t, quality_alphabet_t>\<close> derives from
  \<^verbatim>\<open>cartesian_composition\<close> and stores one letter of each component alphabet; the
  source reaches them as \<^verbatim>\<open>get<0>( *this)\<close> and \<^verbatim>\<open>get<1>( *this)\<close>. The two
  template parameters are the type variables \<open>'s\<close> and \<open>'q\<close>.
\<close>

record ('s, 'q) qualified_t =
  get_0 :: 's
  get_1 :: 'q

text \<open>
  The six relational operators of a component alphabet. The source only calls them
  (\<^verbatim>\<open>std::get<0>( *this) == rhs\<close> and so on), so they are parameters of the model.
\<close>

record 'a relational =
  op_eq :: "'a \<Rightarrow> 'a \<Rightarrow> bool"
  op_ne :: "'a \<Rightarrow> 'a \<Rightarrow> bool"
  op_lt :: "'a \<Rightarrow> 'a \<Rightarrow> bool"
  op_gt :: "'a \<Rightarrow> 'a \<Rightarrow> bool"
  op_le :: "'a \<Rightarrow> 'a \<Rightarrow> bool"
  op_ge :: "'a \<Rightarrow> 'a \<Rightarrow> bool"

subsection \<open>Write functions (qualified.hpp, lines 117-147)\<close>

text \<open>
  A mutating member function returns \<^verbatim>\<open>*this\<close>; the model returns the updated
  object. \<^verbatim>\<open>operator=(sequence_alphabet_type const l)\<close> and
  \<^verbatim>\<open>operator=(quality_alphabet_type const l)\<close> are told apart by the static type of
  their argument, so they are two functions here.
\<close>

definition assign_sequence :: "('s, 'q) qualified_t \<Rightarrow> 's \<Rightarrow> ('s, 'q) qualified_t" where
  "assign_sequence this l = this\<lparr>get_0 := l\<rparr>"

definition assign_quality :: "('s, 'q) qualified_t \<Rightarrow> 'q \<Rightarrow> ('s, 'q) qualified_t" where
  "assign_quality this l = this\<lparr>get_1 := l\<rparr>"

text \<open>
  \<^verbatim>\<open>seqan3::assign_char(get<0>( *this), c)\<close> hands the sequence letter, by reference, and
  the character to the sequence alphabet; \<open>seq_assign_char\<close> is that function of the
  component, from the old letter and the character to the new letter. Likewise
  \<open>qual_assign_phred\<close> for \<^verbatim>\<open>seqan3::assign_phred(get<1>( *this), c)\<close>.
\<close>

definition assign_char ::
  "('s \<Rightarrow> 'c \<Rightarrow> 's) \<Rightarrow> ('s, 'q) qualified_t \<Rightarrow> 'c \<Rightarrow> ('s, 'q) qualified_t" where
  "assign_char seq_assign_char this c = this\<lparr>get_0 := seq_assign_char (get_0 this) c\<rparr>"

definition assign_phred ::
  "('q \<Rightarrow> 'p \<Rightarrow> 'q) \<Rightarrow> ('s, 'q) qualified_t \<Rightarrow> 'p \<Rightarrow> ('s, 'q) qualified_t" where
  "assign_phred qual_assign_phred this c = this\<lparr>get_1 := qual_assign_phred (get_1 this) c\<rparr>"

subsection \<open>Read functions (qualified.hpp, lines 149-173)\<close>

text \<open>
  These member functions are \<^verbatim>\<open>const\<close>: they cannot write to \<^verbatim>\<open>*this\<close>, so the model
  returns the result alone.
\<close>

definition to_phred :: "('q \<Rightarrow> 'p) \<Rightarrow> ('s, 'q) qualified_t \<Rightarrow> 'p" where
  "to_phred qual_to_phred this = qual_to_phred (get_1 this)"

definition to_char :: "('s \<Rightarrow> 'c) \<Rightarrow> ('s, 'q) qualified_t \<Rightarrow> 'c" where
  "to_char seq_to_char this = seq_to_char (get_0 this)"

definition complement :: "('s \<Rightarrow> 's) \<Rightarrow> ('s, 'q) qualified_t \<Rightarrow> ('s, 'q) qualified_t" where
  "complement seq_complement this = \<lparr>get_0 = seq_complement (get_0 this), get_1 = get_1 this\<rparr>"

subsection \<open>Comparison with a letter of the sequence alphabet (qualified.hpp, lines 183-267)\<close>

text \<open>
  The member operators take the composite on the left and delegate to the operator of the
  same name of the sequence alphabet, here a field of \<open>seq_ops\<close>.
\<close>

definition operator_eq_sequence :: "'s relational \<Rightarrow> ('s, 'q) qualified_t \<Rightarrow> 's \<Rightarrow> bool" where
  "operator_eq_sequence seq_ops this rhs = op_eq seq_ops (get_0 this) rhs"

definition operator_ne_sequence :: "'s relational \<Rightarrow> ('s, 'q) qualified_t \<Rightarrow> 's \<Rightarrow> bool" where
  "operator_ne_sequence seq_ops this rhs = op_ne seq_ops (get_0 this) rhs"

definition operator_lt_sequence :: "'s relational \<Rightarrow> ('s, 'q) qualified_t \<Rightarrow> 's \<Rightarrow> bool" where
  "operator_lt_sequence seq_ops this rhs = op_lt seq_ops (get_0 this) rhs"

definition operator_gt_sequence :: "'s relational \<Rightarrow> ('s, 'q) qualified_t \<Rightarrow> 's \<Rightarrow> bool" where
  "operator_gt_sequence seq_ops this rhs = op_gt seq_ops (get_0 this) rhs"

definition operator_le_sequence :: "'s relational \<Rightarrow> ('s, 'q) qualified_t \<Rightarrow> 's \<Rightarrow> bool" where
  "operator_le_sequence seq_ops this rhs = op_le seq_ops (get_0 this) rhs"

definition operator_ge_sequence :: "'s relational \<Rightarrow> ('s, 'q) qualified_t \<Rightarrow> 's \<Rightarrow> bool" where
  "operator_ge_sequence seq_ops this rhs = op_ge seq_ops (get_0 this) rhs"

text \<open>
  The friend operators take the letter on the left and call a member operator with the
  operands swapped: \<^verbatim>\<open>rhs == lhs\<close>, \<^verbatim>\<open>rhs != lhs\<close>, \<^verbatim>\<open>rhs > lhs\<close>,
  \<^verbatim>\<open>rhs < lhs\<close>, \<^verbatim>\<open>rhs >= lhs\<close>, \<^verbatim>\<open>rhs <= lhs\<close>.
\<close>

definition friend_eq_sequence :: "'s relational \<Rightarrow> 's \<Rightarrow> ('s, 'q) qualified_t \<Rightarrow> bool" where
  "friend_eq_sequence seq_ops lhs rhs = operator_eq_sequence seq_ops rhs lhs"

definition friend_ne_sequence :: "'s relational \<Rightarrow> 's \<Rightarrow> ('s, 'q) qualified_t \<Rightarrow> bool" where
  "friend_ne_sequence seq_ops lhs rhs = operator_ne_sequence seq_ops rhs lhs"

definition friend_lt_sequence :: "'s relational \<Rightarrow> 's \<Rightarrow> ('s, 'q) qualified_t \<Rightarrow> bool" where
  "friend_lt_sequence seq_ops lhs rhs = operator_gt_sequence seq_ops rhs lhs"

definition friend_gt_sequence :: "'s relational \<Rightarrow> 's \<Rightarrow> ('s, 'q) qualified_t \<Rightarrow> bool" where
  "friend_gt_sequence seq_ops lhs rhs = operator_lt_sequence seq_ops rhs lhs"

definition friend_le_sequence :: "'s relational \<Rightarrow> 's \<Rightarrow> ('s, 'q) qualified_t \<Rightarrow> bool" where
  "friend_le_sequence seq_ops lhs rhs = operator_ge_sequence seq_ops rhs lhs"

definition friend_ge_sequence :: "'s relational \<Rightarrow> 's \<Rightarrow> ('s, 'q) qualified_t \<Rightarrow> bool" where
  "friend_ge_sequence seq_ops lhs rhs = operator_le_sequence seq_ops rhs lhs"

subsection \<open>Comparison with a letter of the quality alphabet (qualified.hpp, lines 269-353)\<close>

text \<open>
  The same twelve operators for \<^verbatim>\<open>quality_alphabet_t\<close>; the member operators read
  \<^verbatim>\<open>std::get<1>( *this)\<close>.
\<close>

definition operator_eq_quality :: "'q relational \<Rightarrow> ('s, 'q) qualified_t \<Rightarrow> 'q \<Rightarrow> bool" where
  "operator_eq_quality qual_ops this rhs = op_eq qual_ops (get_1 this) rhs"

definition operator_ne_quality :: "'q relational \<Rightarrow> ('s, 'q) qualified_t \<Rightarrow> 'q \<Rightarrow> bool" where
  "operator_ne_quality qual_ops this rhs = op_ne qual_ops (get_1 this) rhs"

definition operator_lt_quality :: "'q relational \<Rightarrow> ('s, 'q) qualified_t \<Rightarrow> 'q \<Rightarrow> bool" where
  "operator_lt_quality qual_ops this rhs = op_lt qual_ops (get_1 this) rhs"

definition operator_gt_quality :: "'q relational \<Rightarrow> ('s, 'q) qualified_t \<Rightarrow> 'q \<Rightarrow> bool" where
  "operator_gt_quality qual_ops this rhs = op_gt qual_ops (get_1 this) rhs"

definition operator_le_quality :: "'q relational \<Rightarrow> ('s, 'q) qualified_t \<Rightarrow> 'q \<Rightarrow> bool" where
  "operator_le_quality qual_ops this rhs = op_le qual_ops (get_1 this) rhs"

definition operator_ge_quality :: "'q relational \<Rightarrow> ('s, 'q) qualified_t \<Rightarrow> 'q \<Rightarrow> bool" where
  "operator_ge_quality qual_ops this rhs = op_ge qual_ops (get_1 this) rhs"

definition friend_eq_quality :: "'q relational \<Rightarrow> 'q \<Rightarrow> ('s, 'q) qualified_t \<Rightarrow> bool" where
  "friend_eq_quality qual_ops lhs rhs = operator_eq_quality qual_ops rhs lhs"

definition friend_ne_quality :: "'q relational \<Rightarrow> 'q \<Rightarrow> ('s, 'q) qualified_t \<Rightarrow> bool" where
  "friend_ne_quality qual_ops lhs rhs = operator_ne_quality qual_ops rhs lhs"

definition friend_lt_quality :: "'q relational \<Rightarrow> 'q \<Rightarrow> ('s, 'q) qualified_t \<Rightarrow> bool" where
  "friend_lt_quality qual_ops lhs rhs = operator_gt_quality qual_ops rhs lhs"

definition friend_gt_quality :: "'q relational \<Rightarrow> 'q \<Rightarrow> ('s, 'q) qualified_t \<Rightarrow> bool" where
  "friend_gt_quality qual_ops lhs rhs = operator_lt_quality qual_ops rhs lhs"

definition friend_le_quality :: "'q relational \<Rightarrow> 'q \<Rightarrow> ('s, 'q) qualified_t \<Rightarrow> bool" where
  "friend_le_quality qual_ops lhs rhs = operator_ge_quality qual_ops rhs lhs"

definition friend_ge_quality :: "'q relational \<Rightarrow> 'q \<Rightarrow> ('s, 'q) qualified_t \<Rightarrow> bool" where
  "friend_ge_quality qual_ops lhs rhs = operator_le_quality qual_ops rhs lhs"

section \<open>The base class and the component alphabets\<close>

text \<open>
  \<^verbatim>\<open>cartesian_composition.hpp\<close> (the rank of a composite and the comparison of two
  composites) and the alphabets \<^verbatim>\<open>dna4\<close> and \<^verbatim>\<open>phred42\<close> are included by
  \<^verbatim>\<open>qualified.hpp\<close> but are not among the sources. The definitions of this section
  follow the specification's description of them instead.
\<close>

subsection \<open>The rank of a composite\<close>

text \<open>
  Modelled from the spec: the rank encoding of the generic composite, whose code
  (\<^verbatim>\<open>cartesian_composition::to_rank\<close>) is missing. A composite over component alphabets
  of sizes \<open>ns\<close> is the list \<open>rs\<close> of its components' ranks, and
  \<^verbatim>\<open>rank(composite) = sum over i of rank(component_i) * product over j > i of size(component_j)\<close>,
  position 0 being the most significant digit.
\<close>

fun encode :: "nat list \<Rightarrow> nat list \<Rightarrow> nat" where
  "encode (n # ns) (r # rs) = r * prod_list ns + encode ns rs"
| "encode _ _ = 0"

text \<open>
  Modelled from the spec: the decoding of a rank (\<^verbatim>\<open>cartesian_composition::assign_rank\<close>
  is missing), the other half of the "total rank encode/decode pair implementing the
  mixed-radix mapping": digit \<open>i\<close> of \<open>r\<close> is \<open>r\<close> divided by the weight of
  position \<open>i\<close>, modulo the size of component \<open>i\<close>.
\<close>

fun decode :: "nat list \<Rightarrow> nat \<Rightarrow> nat list" where
  "decode [] r = []"
| "decode (n # ns) r = (r div prod_list ns) mod n # decode ns r"

text \<open>
  Modelled from the spec: "an ordered tuple of exactly one value from each component
  alphabet", every component given by its rank below the size of its alphabet.
\<close>

definition composite :: "nat list \<Rightarrow> nat list \<Rightarrow> bool" where
  "composite ns rs = list_all2 (\<lambda>r n. r < n) rs ns"

text \<open>
  Modelled from the spec: "size = product of component sizes"
  (\<^verbatim>\<open>cartesian_composition::value_size\<close> is missing).
\<close>

definition value_size :: "nat list \<Rightarrow> nat" where
  "value_size ns = prod_list ns"

text \<open>
  What the composite uses of a component alphabet for its rank: the alphabet's size and
  the rank of a letter.
\<close>

record 'a component =
  alphabet_size :: nat
  letter_rank :: "'a \<Rightarrow> nat"

text \<open>
  Modelled from the spec: the rank of a qualified letter, the encoding above at the two
  positions of \<^verbatim>\<open>qualified\<close> (\<^verbatim>\<open>to_rank\<close> is inherited from the missing base class).
\<close>

definition to_rank :: "'s component \<Rightarrow> 'q component \<Rightarrow> ('s, 'q) qualified_t \<Rightarrow> nat" where
  "to_rank seq qual this =
     encode [alphabet_size seq, alphabet_size qual]
       [letter_rank seq (get_0 this), letter_rank qual (get_1 this)]"

text \<open>
  Modelled from the spec: "Equality/ordering of two composites is defined purely in terms
  of equality/ordering of the rank" (\<^verbatim>\<open>base_type::operator==\<close> and
  \<^verbatim>\<open>base_type::operator!=\<close>, which \<^verbatim>\<open>qualified\<close> inherits at lines 175-181, are
  missing).
\<close>

definition operator_eq ::
  "'s component \<Rightarrow> 'q component \<Rightarrow> ('s, 'q) qualified_t \<Rightarrow> ('s, 'q) qualified_t \<Rightarrow> bool" where
  "operator_eq seq qual lhs rhs = (to_rank seq qual lhs = to_rank seq qual rhs)"

definition operator_ne ::
  "'s component \<Rightarrow> 'q component \<Rightarrow> ('s, 'q) qualified_t \<Rightarrow> ('s, 'q) qualified_t \<Rightarrow> bool" where
  "operator_ne seq qual lhs rhs = (to_rank seq qual lhs \<noteq> to_rank seq qual rhs)"

subsection \<open>A sequence alphabet of four letters\<close>

text \<open>
  Modelled from the spec: the "4-letter sequence alphabet with ranks {A=0,C=1,G=2,T=3},
  complement A<->T, C<->G" of the specification's example (\<^verbatim>\<open>dna4\<close> is missing).
\<close>

datatype dna4 = A | C | G | T

text \<open>Modelled from the spec: the ranks {A=0,C=1,G=2,T=3}.\<close>

fun dna4_to_rank :: "dna4 \<Rightarrow> nat" where
  "dna4_to_rank A = 0"
| "dna4_to_rank C = 1"
| "dna4_to_rank G = 2"
| "dna4_to_rank T = 3"

text \<open>Modelled from the spec: the complement A<->T, C<->G.\<close>

fun dna4_complement :: "dna4 \<Rightarrow> dna4" where
  "dna4_complement A = T"
| "dna4_complement C = G"
| "dna4_complement G = C"
| "dna4_complement T = A"

text \<open>
  Modelled from the spec: the character of a letter (the example has \<^verbatim>\<open>to_char()\<close> of
  the letter A be the character A).
\<close>

fun dna4_to_char :: "dna4 \<Rightarrow> char" where
  "dna4_to_char A = CHR ''A''"
| "dna4_to_char C = CHR ''C''"
| "dna4_to_char G = CHR ''G''"
| "dna4_to_char T = CHR ''T''"

text \<open>Modelled from the spec: the size, 4, and the ranks of this alphabet.\<close>

definition dna4_component :: "dna4 component" where
  "dna4_component = \<lparr>alphabet_size = 4, letter_rank = dna4_to_rank\<rparr>"

text \<open>
  Modelled from the spec: the relational operators of a component alphabet compare ranks
  (in the specification's example the letter A equals A and is less than G).
\<close>

definition rank_relational :: "('a \<Rightarrow> nat) \<Rightarrow> 'a relational" where
  "rank_relational f =
     \<lparr>op_eq = (\<lambda>a b. f a = f b), op_ne = (\<lambda>a b. f a \<noteq> f b),
      op_lt = (\<lambda>a b. f a < f b), op_gt = (\<lambda>a b. f a > f b),
      op_le = (\<lambda>a b. f a \<le> f b), op_ge = (\<lambda>a b. f a \<ge> f b)\<rparr>"

subsection \<open>A quality alphabet of 42 levels\<close>

text \<open>
  Modelled from the spec: "a quality alphabet with 42 phred levels 0..41" (\<^verbatim>\<open>phred42\<close>
  is missing). A letter is its rank, which is also its phred score. The specification
  leaves the treatment of a phred score out of range to the alphabet ("clamped/mapped");
  \<open>phred42_of_phred\<close>, the letter of a given phred score, clamps, and no theorem below
  takes the letter of a score out of range.
\<close>

typedef phred42 = "{n :: nat. n < 42}"
  by (rule exI [of _ 0]) simp

setup_lifting type_definition_phred42

text \<open>Modelled from the spec: the rank of a quality letter, one of 0..41.\<close>

lift_definition phred42_to_rank :: "phred42 \<Rightarrow> nat" is "\<lambda>n. n" .

text \<open>Modelled from the spec: the quality letter of a phred score, clamped to 41.\<close>

lift_definition phred42_of_phred :: "nat \<Rightarrow> phred42" is "\<lambda>p. min p 41"
  by simp

text \<open>Modelled from the spec: the phred score of a quality letter, its level.\<close>

definition phred42_to_phred :: "phred42 \<Rightarrow> nat" where
  "phred42_to_phred l = phred42_to_rank l"

text \<open>Modelled from the spec: the size, 42, and the ranks of this alphabet.\<close>

definition phred42_component :: "phred42 component" where
  "phred42_component = \<lparr>alphabet_size = 42, letter_rank = phred42_to_rank\<rparr>"

subsection \<open>The letters of the specification's example\<close>

text \<open>
  Modelled from the spec: the qualified letter built from a sequence letter and a phred
  score, as in "constructing a composite from (A, 7)".
\<close>

abbreviation example_letter :: "dna4 \<Rightarrow> nat \<Rightarrow> (dna4, phred42) qualified_t" where
  "example_letter s p \<equiv> \<lparr>get_0 = s, get_1 = phred42_of_phred p\<rparr>"

text \<open>Modelled from the spec: the rank of a qualified letter over these two alphabets.\<close>

abbreviation example_rank :: "(dna4, phred42) qualified_t \<Rightarrow> nat" where
  "example_rank \<equiv> to_rank dna4_component phred42_component"

text \<open>Modelled from the spec: the relational operators of the two alphabets, by rank.\<close>

abbreviation dna4_ops :: "dna4 relational" where
  "dna4_ops \<equiv> rank_relational dna4_to_rank"

abbreviation phred42_ops :: "phred42 relational" where
  "phred42_ops \<equiv> rank_relational phred42_to_rank"

section \<open>Properties\<close>

subsection \<open>Facts about the component alphabets\<close>

lemma phred42_to_rank_of_phred [simp]: "phred42_to_rank (phred42_of_phred p) = min p 41"
  by transfer simp

lemma phred42_to_rank_less [simp]: "phred42_to_rank l < 42"
  by transfer simp

lemma phred42_eq_iff: "l = l' \<longleftrightarrow> phred42_to_rank l = phred42_to_rank l'"
  by transfer simp

lemma dna4_complement_involutive [simp]: "dna4_complement (dna4_complement x) = x"
  by (cases x) simp_all

lemmas sequence_comparison_defs =
  operator_eq_sequence_def friend_eq_sequence_def
  operator_ne_sequence_def friend_ne_sequence_def
  operator_lt_sequence_def friend_lt_sequence_def
  operator_gt_sequence_def friend_gt_sequence_def
  operator_le_sequence_def friend_le_sequence_def
  operator_ge_sequence_def friend_ge_sequence_def

lemmas quality_comparison_defs =
  operator_eq_quality_def friend_eq_quality_def
  operator_ne_quality_def friend_ne_quality_def
  operator_lt_quality_def friend_lt_quality_def
  operator_gt_quality_def friend_gt_quality_def
  operator_le_quality_def friend_le_quality_def
  operator_ge_quality_def friend_ge_quality_def

subsection \<open>The mixed-radix rank is a bijection\<close>

lemma encode_less: "list_all2 (\<lambda>r n. r < n) rs ns \<Longrightarrow> encode ns rs < prod_list ns"
proof (induction rs ns rule: list_all2_induct)
  case Nil
  then show ?case by simp
next
  case (Cons r rs n ns)
  have "r * prod_list ns + encode ns rs < r * prod_list ns + prod_list ns"
    using Cons.IH by simp
  also have "\<dots> = Suc r * prod_list ns" by simp
  also have "\<dots> \<le> n * prod_list ns"
    using Cons.hyps(1) by (intro mult_le_mono1) simp
  finally show ?case by simp
qed

text \<open>A multiple of the size of the lower positions does not reach their digits.\<close>

lemma decode_add_multiple: "decode ns (e + k * prod_list ns) = decode ns e"
proof (induction ns arbitrary: k)
  case Nil
  then show ?case by simp
next
  case (Cons n ns)
  have tl: "decode ns (e + k * (n * prod_list ns)) = decode ns e"
    using Cons.IH [of "k * n"] by (simp add: mult.assoc)
  have hd: "((e + k * (n * prod_list ns)) div prod_list ns) mod n = (e div prod_list ns) mod n"
  proof (cases "prod_list ns = 0")
    case True
    then show ?thesis by simp
  next
    case False
    then have "(e + (k * n) * prod_list ns) div prod_list ns = e div prod_list ns + k * n"
      by simp
    then show ?thesis by (simp add: mult.assoc)
  qed
  show ?case using hd tl by simp
qed

lemma decode_encode: "list_all2 (\<lambda>r n. r < n) rs ns \<Longrightarrow> decode ns (encode ns rs) = rs"
proof (induction rs ns rule: list_all2_induct)
  case Nil
  then show ?case by simp
next
  case (Cons r rs n ns)
  have e: "encode ns rs < prod_list ns"
    using Cons.hyps(2) by (rule encode_less)
  have "(r * prod_list ns + encode ns rs) div prod_list ns = r"
    using e by simp
  then have hd: "((r * prod_list ns + encode ns rs) div prod_list ns) mod n = r"
    using Cons.hyps(1) by simp
  have tl: "decode ns (r * prod_list ns + encode ns rs) = rs"
    using decode_add_multiple [of ns "encode ns rs" r] Cons.IH by (simp add: add.commute)
  show ?case using hd tl by simp
qed

lemma decode_composite: "0 \<notin> set ns \<Longrightarrow> list_all2 (\<lambda>r n. r < n) (decode ns r) ns"
  by (induction ns) auto

lemma encode_decode_mod: "encode ns (decode ns r) = r mod prod_list ns"
proof (induction ns)
  case Nil
  then show ?case by simp
next
  case (Cons n ns)
  have "r mod (prod_list ns * n) = prod_list ns * (r div prod_list ns mod n) + r mod prod_list ns"
    by (rule mod_mult2_eq)
  then show ?case using Cons.IH by (simp add: mult.commute)
qed

lemma prod_list_pos: "0 < prod_list ns \<Longrightarrow> (0::nat) \<notin> set ns"
  by (induction ns) auto

lemma less_prod_list: "r < prod_list ns \<Longrightarrow> (0::nat) \<notin> set ns"
  by (rule prod_list_pos) simp

lemma encode_bij: "bij_betw (encode ns) {rs. composite ns rs} {..<value_size ns}"
proof (rule bij_betw_byWitness [where f' = "decode ns"])
  show "\<forall>rs\<in>{rs. composite ns rs}. decode ns (encode ns rs) = rs"
    by (simp add: composite_def decode_encode)
  show "\<forall>r\<in>{..<value_size ns}. encode ns (decode ns r) = r"
    by (simp add: value_size_def encode_decode_mod)
  show "encode ns ` {rs. composite ns rs} \<subseteq> {..<value_size ns}"
    by (auto simp: composite_def value_size_def encode_less)
  show "decode ns ` {..<value_size ns} \<subseteq> {rs. composite ns rs}"
    by (auto simp: composite_def value_size_def dest!: less_prod_list intro: decode_composite)
qed

lemma card_composite: "card {rs. composite ns rs} = prod_list ns"
  using bij_betw_same_card [OF encode_bij [of ns]] by (simp add: value_size_def)

subsection \<open>The claims\<close>

text \<open>
  The usage example in the header's documentation (qualified.hpp, lines 69-73) prints
  \<^verbatim>\<open>148 0 7\<close> for the rank of \<^verbatim>\<open>{dna4::A, 7}\<close> and the ranks of its two letters.
  With the rank of the specification every letter whose sequence letter is A has a rank
  below 42, so 148 is not such a rank; with position 0 as the least significant digit
  the rank of (A, 7) would be 0 + 7 * 4 = 28, and 148 = 0 + 37 * 4. The comment agrees
  with neither order at the letter (A, 7).
\<close>

lemma rank_of_letter_A_less:
  "example_rank \<lparr>get_0 = A, get_1 = l\<rparr> < 42"
  by (simp add: to_rank_def dna4_component_def phred42_component_def)

text \<open>
  Claim C1. Over the four-letter sequence alphabet and the 42-level quality alphabet the
  rank of a qualified letter is the rank of its sequence letter times 42 plus the rank of
  its quality letter, so slot 0 is the most significant digit; the letter built from
  (A, 7) has rank 0 * 42 + 7 = 7, and its complement is the letter (T, 7), of rank
  3 * 42 + 7 = 133. The rank is the one that the specification describes.
\<close>

theorem qualified_rank_example:
  "example_rank q = dna4_to_rank (get_0 q) * 42 + phred42_to_rank (get_1 q)
   \<and> example_rank (example_letter A 7) = 0 * 42 + 7
   \<and> example_rank (example_letter A 7) = 7
   \<and> complement dna4_complement (example_letter A 7) = example_letter T 7
   \<and> example_rank (complement dna4_complement (example_letter A 7)) = 3 * 42 + 7
   \<and> example_rank (complement dna4_complement (example_letter A 7)) = 133"
  by (simp add: to_rank_def dna4_component_def phred42_component_def complement_def)

text \<open>
  Claim C2. For every composite (a tuple of component ranks, each below the size of its
  alphabet) decoding its rank gives the tuple back; for every rank below the size of the
  composite, encoding its decoding gives the rank back; the size of the composite is the
  product of the component sizes, which is also the number of composites; and the rank
  is a bijection from the composites onto the ranks below the size.
\<close>

theorem composite_rank_bijection:
  "(composite ns rs \<longrightarrow> decode ns (encode ns rs) = rs)
   \<and> (r < value_size ns \<longrightarrow> encode ns (decode ns r) = r)
   \<and> value_size ns = prod_list ns
   \<and> card {rs. composite ns rs} = prod_list ns
   \<and> bij_betw (encode ns) {rs. composite ns rs} {..<value_size ns}"
proof -
  have "composite ns rs \<longrightarrow> decode ns (encode ns rs) = rs"
    by (simp add: composite_def decode_encode)
  moreover have "r < value_size ns \<longrightarrow> encode ns (decode ns r) = r"
    by (simp add: value_size_def encode_decode_mod)
  moreover have "value_size ns = prod_list ns"
    by (simp add: value_size_def)
  ultimately show ?thesis
    using card_composite [of ns] encode_bij [of ns] by blast
qed

theorem composite_rank_bijection_witness:
  "composite [4, 42] [3, 7]
   \<and> decode [4, 42] (encode [4, 42] [3, 7]) = [3, 7]
   \<and> 133 < value_size [4, 42]
   \<and> encode [4, 42] (decode [4, 42] 133) = 133
   \<and> value_size [4, 42] = 168
   \<and> card {rs. composite [4, 42] rs} = 168"
proof -
  have c: "composite [4, 42] [3, 7]" by (simp add: composite_def)
  have r: "133 < value_size [4, 42]" by (simp add: value_size_def)
  show ?thesis
    using c r composite_rank_bijection [of "[4, 42]" "[3, 7]" 133] by simp
qed

text \<open>
  Claim C3. \<open>assign_char\<close> writes to slot 0 the letter that the sequence alphabet's
  own character assignment yields and leaves slot 1 as it was; \<open>assign_phred\<close> writes to
  slot 1 the letter that the quality alphabet's own phred assignment yields and leaves
  slot 0 as it was.
\<close>

theorem assign_char_phred_frame:
  "get_0 (assign_char seq_assign_char this c) = seq_assign_char (get_0 this) c
   \<and> get_1 (assign_char seq_assign_char this c) = get_1 this
   \<and> get_1 (assign_phred qual_assign_phred this p) = qual_assign_phred (get_1 this) p
   \<and> get_0 (assign_phred qual_assign_phred this p) = get_0 this"
  by (simp add: assign_char_def assign_phred_def)

text \<open>
  Claim C4. Assigning a sequence letter to a qualified letter sets slot 0 to it and
  leaves slot 1 as it was; assigning a quality letter sets slot 1 to it and leaves slot
  0 as it was. Assigning the quality letter of phred 41 to (A, 7) gives (A, 41), whose
  rank is 0 * 42 + 41 = 41.
\<close>

theorem assign_letter_frame:
  "get_0 (assign_sequence this s) = s
   \<and> get_1 (assign_sequence this s) = get_1 this
   \<and> get_1 (assign_quality this l) = l
   \<and> get_0 (assign_quality this l) = get_0 this
   \<and> phred42_to_phred (phred42_of_phred 41) = 41
   \<and> assign_quality (example_letter A 7) (phred42_of_phred 41) = example_letter A 41
   \<and> example_rank (assign_quality (example_letter A 7) (phred42_of_phred 41)) = 0 * 42 + 41
   \<and> example_rank (assign_quality (example_letter A 7) (phred42_of_phred 41)) = 41"
  by (simp add: assign_sequence_def assign_quality_def to_rank_def dna4_component_def
      phred42_component_def phred42_to_phred_def)

text \<open>
  Claim C5. The complement of a qualified letter has the complement of its sequence
  letter, as the sequence alphabet computes it, in slot 0 and the same quality letter in
  slot 1. The member function is const and returns a new object, so the model is a
  function of the letter with no updated letter in its result.
\<close>

theorem complement_slots:
  "get_0 (complement seq_complement this) = seq_complement (get_0 this)
   \<and> get_1 (complement seq_complement this) = get_1 this
   \<and> complement seq_complement this
       = \<lparr>get_0 = seq_complement (get_0 this), get_1 = get_1 this\<rparr>"
  by (simp add: complement_def)

text \<open>
  Claim C6. If the complement of the sequence alphabet is an involution, then the
  complement of the complement of a qualified letter is that letter: the two have the
  same letter in both slots, so they are equal under every reflexive comparison of
  composites. The complement has the quality letter of the letter it was taken of.
\<close>

theorem complement_involution:
  assumes "\<forall>x. seq_complement (seq_complement x) = x"
  shows "complement seq_complement (complement seq_complement this) = this
   \<and> get_1 (complement seq_complement this) = get_1 this"
  using assms by (simp add: complement_def)

theorem complement_involution_witness:
  "(\<forall>x. dna4_complement (dna4_complement x) = x)
   \<and> complement dna4_complement (complement dna4_complement (example_letter C 7))
       = example_letter C 7
   \<and> complement dna4_complement (example_letter C 7) = example_letter G 7
   \<and> get_1 (complement dna4_complement (example_letter C 7)) = phred42_of_phred 7"
proof -
  have inv: "\<forall>x. dna4_complement (dna4_complement x) = x" by simp
  show ?thesis
    using inv complement_involution [OF inv, of "example_letter C 7"]
    by (simp add: complement_def)
qed

text \<open>
  Claim C7. Each of the six comparisons of a qualified letter with a sequence letter,
  whichever side the sequence letter stands on, is the sequence alphabet's comparison of
  slot 0 with that letter (reversed when the letter stands on the left), so it reads
  slot 0 only: two qualified letters with the same sequence letter give the same answer
  whatever their quality letters are. Each of the six comparisons with a quality letter
  is the quality alphabet's comparison of slot 1 with that letter, so it reads slot 1
  only: two qualified letters with the same quality letter give the same answer whatever
  their sequence letters are.
\<close>

theorem cross_comparison_reads_one_slot:
  "operator_eq_sequence seq_ops q v = op_eq seq_ops (get_0 q) v
   \<and> operator_ne_sequence seq_ops q v = op_ne seq_ops (get_0 q) v
   \<and> operator_lt_sequence seq_ops q v = op_lt seq_ops (get_0 q) v
   \<and> operator_gt_sequence seq_ops q v = op_gt seq_ops (get_0 q) v
   \<and> operator_le_sequence seq_ops q v = op_le seq_ops (get_0 q) v
   \<and> operator_ge_sequence seq_ops q v = op_ge seq_ops (get_0 q) v
   \<and> friend_eq_sequence seq_ops v q = op_eq seq_ops (get_0 q) v
   \<and> friend_ne_sequence seq_ops v q = op_ne seq_ops (get_0 q) v
   \<and> friend_lt_sequence seq_ops v q = op_gt seq_ops (get_0 q) v
   \<and> friend_gt_sequence seq_ops v q = op_lt seq_ops (get_0 q) v
   \<and> friend_le_sequence seq_ops v q = op_ge seq_ops (get_0 q) v
   \<and> friend_ge_sequence seq_ops v q = op_le seq_ops (get_0 q) v
   \<and> operator_eq_quality qual_ops q w = op_eq qual_ops (get_1 q) w
   \<and> operator_ne_quality qual_ops q w = op_ne qual_ops (get_1 q) w
   \<and> operator_lt_quality qual_ops q w = op_lt qual_ops (get_1 q) w
   \<and> operator_gt_quality qual_ops q w = op_gt qual_ops (get_1 q) w
   \<and> operator_le_quality qual_ops q w = op_le qual_ops (get_1 q) w
   \<and> operator_ge_quality qual_ops q w = op_ge qual_ops (get_1 q) w
   \<and> friend_eq_quality qual_ops w q = op_eq qual_ops (get_1 q) w
   \<and> friend_ne_quality qual_ops w q = op_ne qual_ops (get_1 q) w
   \<and> friend_lt_quality qual_ops w q = op_gt qual_ops (get_1 q) w
   \<and> friend_gt_quality qual_ops w q = op_lt qual_ops (get_1 q) w
   \<and> friend_le_quality qual_ops w q = op_ge qual_ops (get_1 q) w
   \<and> friend_ge_quality qual_ops w q = op_le qual_ops (get_1 q) w
   \<and> (get_0 q = get_0 q' \<longrightarrow>
     operator_eq_sequence seq_ops q v = operator_eq_sequence seq_ops q' v
     \<and> operator_ne_sequence seq_ops q v = operator_ne_sequence seq_ops q' v
     \<and> operator_lt_sequence seq_ops q v = operator_lt_sequence seq_ops q' v
     \<and> operator_gt_sequence seq_ops q v = operator_gt_sequence seq_ops q' v
     \<and> operator_le_sequence seq_ops q v = operator_le_sequence seq_ops q' v
     \<and> operator_ge_sequence seq_ops q v = operator_ge_sequence seq_ops q' v
     \<and> friend_eq_sequence seq_ops v q = friend_eq_sequence seq_ops v q'
     \<and> friend_ne_sequence seq_ops v q = friend_ne_sequence seq_ops v q'
     \<and> friend_lt_sequence seq_ops v q = friend_lt_sequence seq_ops v q'
     \<and> friend_gt_sequence seq_ops v q = friend_gt_sequence seq_ops v q'
     \<and> friend_le_sequence seq_ops v q = friend_le_sequence seq_ops v q'
     \<and> friend_ge_sequence seq_ops v q = friend_ge_sequence seq_ops v q')
   \<and> (get_1 q = get_1 q' \<longrightarrow>
     operator_eq_quality qual_ops q w = operator_eq_quality qual_ops q' w
     \<and> operator_ne_quality qual_ops q w = operator_ne_quality qual_ops q' w
     \<and> operator_lt_quality qual_ops q w = operator_lt_quality qual_ops q' w
     \<and> operator_gt_quality qual_ops q w = operator_gt_quality qual_ops q' w
     \<and> operator_le_quality qual_ops q w = operator_le_quality qual_ops q' w
     \<and> operator_ge_quality qual_ops q w = operator_ge_quality qual_ops q' w
     \<and> friend_eq_quality qual_ops w q = friend_eq_quality qual_ops w q'
     \<and> friend_ne_quality qual_ops w q = friend_ne_quality qual_ops w q'
     \<and> friend_lt_quality qual_ops w q = friend_lt_quality qual_ops w q'
     \<and> friend_gt_quality qual_ops w q = friend_gt_quality qual_ops w q'
     \<and> friend_le_quality qual_ops w q = friend_le_quality qual_ops w q'
     \<and> friend_ge_quality qual_ops w q = friend_ge_quality qual_ops w q')"
  by (simp add: sequence_comparison_defs quality_comparison_defs)

theorem cross_comparison_reads_one_slot_witness:
  "get_0 (example_letter A 7) = get_0 (example_letter A 8)
   \<and> get_1 (example_letter A 7) = get_1 (example_letter T 7)
   \<and> operator_eq_sequence dna4_ops (example_letter A 7) A
   \<and> operator_eq_sequence dna4_ops (example_letter A 8) A
   \<and> \<not> operator_eq_sequence dna4_ops (example_letter C 7) A
   \<and> operator_ne_sequence dna4_ops (example_letter C 7) A
   \<and> \<not> operator_ne_sequence dna4_ops (example_letter A 7) A
   \<and> operator_lt_sequence dna4_ops (example_letter A 7) G
   \<and> operator_lt_sequence dna4_ops (example_letter A 8) G
   \<and> \<not> operator_lt_sequence dna4_ops (example_letter A 7) A
   \<and> \<not> operator_lt_sequence dna4_ops (example_letter G 7) A
   \<and> operator_gt_sequence dna4_ops (example_letter G 7) A
   \<and> \<not> operator_gt_sequence dna4_ops (example_letter A 7) G
   \<and> operator_le_sequence dna4_ops (example_letter A 7) A
   \<and> \<not> operator_le_sequence dna4_ops (example_letter G 7) A
   \<and> operator_ge_sequence dna4_ops (example_letter A 7) A
   \<and> \<not> operator_ge_sequence dna4_ops (example_letter A 7) G
   \<and> friend_eq_sequence dna4_ops A (example_letter A 7)
   \<and> \<not> friend_eq_sequence dna4_ops A (example_letter C 7)
   \<and> friend_ne_sequence dna4_ops A (example_letter C 7)
   \<and> \<not> friend_ne_sequence dna4_ops A (example_letter A 7)
   \<and> friend_lt_sequence dna4_ops A (example_letter G 7)
   \<and> \<not> friend_lt_sequence dna4_ops G (example_letter A 7)
   \<and> friend_gt_sequence dna4_ops G (example_letter A 7)
   \<and> friend_gt_sequence dna4_ops G (example_letter A 8)
   \<and> \<not> friend_gt_sequence dna4_ops A (example_letter G 7)
   \<and> friend_le_sequence dna4_ops A (example_letter A 7)
   \<and> \<not> friend_le_sequence dna4_ops G (example_letter A 7)
   \<and> friend_ge_sequence dna4_ops A (example_letter A 7)
   \<and> \<not> friend_ge_sequence dna4_ops A (example_letter G 7)
   \<and> operator_eq_quality phred42_ops (example_letter A 7) (phred42_of_phred 7)
   \<and> operator_eq_quality phred42_ops (example_letter T 7) (phred42_of_phred 7)
   \<and> \<not> operator_eq_quality phred42_ops (example_letter A 7) (phred42_of_phred 8)
   \<and> operator_ne_quality phred42_ops (example_letter A 7) (phred42_of_phred 8)
   \<and> \<not> operator_ne_quality phred42_ops (example_letter T 7) (phred42_of_phred 7)
   \<and> operator_lt_quality phred42_ops (example_letter T 7) (phred42_of_phred 8)
   \<and> \<not> operator_lt_quality phred42_ops (example_letter A 8) (phred42_of_phred 7)
   \<and> operator_gt_quality phred42_ops (example_letter A 8) (phred42_of_phred 7)
   \<and> \<not> operator_gt_quality phred42_ops (example_letter T 7) (phred42_of_phred 8)
   \<and> operator_le_quality phred42_ops (example_letter T 7) (phred42_of_phred 7)
   \<and> \<not> operator_le_quality phred42_ops (example_letter A 8) (phred42_of_phred 7)
   \<and> operator_ge_quality phred42_ops (example_letter T 7) (phred42_of_phred 7)
   \<and> \<not> operator_ge_quality phred42_ops (example_letter T 7) (phred42_of_phred 8)
   \<and> friend_eq_quality phred42_ops (phred42_of_phred 7) (example_letter T 7)
   \<and> \<not> friend_eq_quality phred42_ops (phred42_of_phred 8) (example_letter A 7)
   \<and> friend_ne_quality phred42_ops (phred42_of_phred 8) (example_letter A 7)
   \<and> \<not> friend_ne_quality phred42_ops (phred42_of_phred 7) (example_letter T 7)
   \<and> friend_lt_quality phred42_ops (phred42_of_phred 7) (example_letter A 8)
   \<and> \<not> friend_lt_quality phred42_ops (phred42_of_phred 8) (example_letter A 7)
   \<and> friend_gt_quality phred42_ops (phred42_of_phred 8) (example_letter A 7)
   \<and> friend_gt_quality phred42_ops (phred42_of_phred 8) (example_letter T 7)
   \<and> \<not> friend_gt_quality phred42_ops (phred42_of_phred 7) (example_letter A 8)
   \<and> friend_le_quality phred42_ops (phred42_of_phred 7) (example_letter T 7)
   \<and> \<not> friend_le_quality phred42_ops (phred42_of_phred 8) (example_letter A 7)
   \<and> \<not> friend_le_quality phred42_ops (phred42_of_phred 8) (example_letter T 7)
   \<and> friend_ge_quality phred42_ops (phred42_of_phred 7) (example_letter A 7)
   \<and> \<not> friend_ge_quality phred42_ops (phred42_of_phred 7) (example_letter A 8)"
proof -
  have s: "get_0 (example_letter A 7) = get_0 (example_letter A 8)" by simp
  have l: "get_1 (example_letter A 7) = get_1 (example_letter T 7)" by simp
  show ?thesis
    using s l
      cross_comparison_reads_one_slot [of dna4_ops "example_letter A 7" A phred42_ops
        "phred42_of_phred 7" "example_letter A 8"]
      cross_comparison_reads_one_slot [of dna4_ops "example_letter A 7" G phred42_ops
        "phred42_of_phred 8" "example_letter T 7"]
    by (simp add: sequence_comparison_defs quality_comparison_defs rank_relational_def)
qed

text \<open>
  Claim C8. With the letter of a component on the left, each comparison is the reversed
  comparison with the qualified letter on the left: == is ==, != is !=, < is >, > is <,
  <= is >= and >= is <=, for a letter of the sequence alphabet and for a letter of the
  quality alphabet.
\<close>

theorem friend_comparison_reverses_member:
  "friend_eq_sequence seq_ops s q = operator_eq_sequence seq_ops q s
   \<and> friend_ne_sequence seq_ops s q = operator_ne_sequence seq_ops q s
   \<and> friend_lt_sequence seq_ops s q = operator_gt_sequence seq_ops q s
   \<and> friend_gt_sequence seq_ops s q = operator_lt_sequence seq_ops q s
   \<and> friend_le_sequence seq_ops s q = operator_ge_sequence seq_ops q s
   \<and> friend_ge_sequence seq_ops s q = operator_le_sequence seq_ops q s
   \<and> friend_eq_quality qual_ops l q = operator_eq_quality qual_ops q l
   \<and> friend_ne_quality qual_ops l q = operator_ne_quality qual_ops q l
   \<and> friend_lt_quality qual_ops l q = operator_gt_quality qual_ops q l
   \<and> friend_gt_quality qual_ops l q = operator_lt_quality qual_ops q l
   \<and> friend_le_quality qual_ops l q = operator_ge_quality qual_ops q l
   \<and> friend_ge_quality qual_ops l q = operator_le_quality qual_ops q l"
  by (simp add: sequence_comparison_defs quality_comparison_defs)

text \<open>
  Claim C9. The character of a qualified letter is the character that the sequence
  alphabet gives for slot 0, and its phred score is the score that the quality alphabet
  gives for slot 1. Both member functions are const; the model returns the result alone.
\<close>

theorem to_char_to_phred_delegate:
  "to_char seq_to_char this = seq_to_char (get_0 this)
   \<and> to_phred qual_to_phred this = qual_to_phred (get_1 this)
   \<and> to_char dna4_to_char (example_letter A 7) = CHR ''A''
   \<and> to_phred phred42_to_phred (example_letter A 7) = 7"
  by (simp add: to_char_def to_phred_def phred42_to_phred_def)

text \<open>
  Claim C10. The letters (A, 7) and (A, 8) have the same sequence letter and differ in
  the quality letter; they are unequal as composites, yet (A, 7) == A and A == (A, 8)
  both hold. Equality with a component letter is therefore coarser than equality of
  composites, and chaining it through a component letter does not give equal composites.
\<close>

theorem cross_equality_not_transitive:
  "operator_ne dna4_component phred42_component (example_letter A 7) (example_letter A 8)
   \<and> \<not> operator_eq dna4_component phred42_component (example_letter A 7) (example_letter A 8)
   \<and> example_letter A 7 \<noteq> example_letter A 8
   \<and> get_0 (example_letter A 7) = get_0 (example_letter A 8)
   \<and> operator_eq_sequence dna4_ops (example_letter A 7) A
   \<and> friend_eq_sequence dna4_ops A (example_letter A 8)"
  by (simp add: operator_ne_def operator_eq_def to_rank_def dna4_component_def
      phred42_component_def sequence_comparison_defs rank_relational_def phred42_eq_iff)

end
